theory Spec2Isabelle
  imports Complex_Main
begin

section \<open>JavaScript numbers\<close>

text \<open>
  A JavaScript number is a finite double, one of the two infinities, or NaN. A finite
  double is a rational number and is carried as that rational. Comparisons,
  \<open>Math.max\<close>, \<open>Math.min\<close>, \<open>Math.floor\<close>, \<open>Math.round\<close> and \<open>%\<close> are exact on
  doubles; the results of \<open>+\<close>, \<open>-\<close>, \<open>*\<close> and \<open>/\<close> are rounded to the nearest double
  by \<open>fl\<close> below. The two zeros of IEEE arithmetic are identified, as the comparison
  operators of the language identify them.
\<close>

datatype jsnum = Num rat | PInf | NInf | NaN

text \<open>\<open>x || 0\<close> on a number: NaN is falsy and gives 0; 0 gives 0; any other number is kept.\<close>

fun or_zero :: "jsnum \<Rightarrow> jsnum" where
  "or_zero NaN = Num 0"
| "or_zero x = x"

text \<open>The comparisons \<open><\<close> and \<open><=\<close>: false whenever an operand is NaN.\<close>

fun js_less :: "jsnum \<Rightarrow> jsnum \<Rightarrow> bool" where
  "js_less (Num a) (Num b) = (a < b)"
| "js_less (Num a) PInf = True"
| "js_less NInf (Num b) = True"
| "js_less NInf PInf = True"
| "js_less x y = False"

fun js_le :: "jsnum \<Rightarrow> jsnum \<Rightarrow> bool" where
  "js_le (Num a) (Num b) = (a \<le> b)"
| "js_le (Num a) PInf = True"
| "js_le NInf (Num b) = True"
| "js_le NInf PInf = True"
| "js_le PInf PInf = True"
| "js_le NInf NInf = True"
| "js_le x y = False"

text \<open>\<open>Number.isFinite\<close> and \<open>Number.isNaN\<close>.\<close>

fun isFinite :: "jsnum \<Rightarrow> bool" where
  "isFinite (Num r) = True"
| "isFinite x = False"

fun isNaN :: "jsnum \<Rightarrow> bool" where
  "isNaN NaN = True"
| "isNaN x = False"

text \<open>
  The remainder \<open>x % y\<close> of two finite numbers, \<open>y\<close> not 0, takes the sign of the
  dividend: \<open>x - y * trunc (x / y)\<close>. \<open>Math.round\<close> rounds to the nearest integer,
  a half upwards.
\<close>

definition trunc :: "rat \<Rightarrow> int" where
  "trunc q = (if 0 \<le> q then \<lfloor>q\<rfloor> else \<lceil>q\<rceil>)"

definition js_rem :: "rat \<Rightarrow> rat \<Rightarrow> rat" where
  "js_rem x y = x - y * of_int (trunc (x / y))"

definition js_round :: "rat \<Rightarrow> int" where
  "js_round x = \<lfloor>x + 1 / 2\<rfloor>"

text \<open>
  Rounding to the nearest double, ties to the even significand (IEEE 754 binary64): a
  double is an integer multiple of \<open>2 ^ (e - 52)\<close>, where \<open>2 ^ e\<close> is the largest power
  of two not above its magnitude and \<open>e\<close> is at least \<open>-1022\<close>. The search for \<open>e\<close> is
  bounded by 1100 steps, beyond the exponent range of doubles; overflow to
  \<open>Infinity\<close>, which needs a magnitude of \<open>2 ^ 1024\<close>, is out of the reach of the hours
  handled here and is not modelled.
\<close>

fun halvings :: "nat \<Rightarrow> rat \<Rightarrow> nat" where
  "halvings 0 x = 0"
| "halvings (Suc n) x = (if x < 2 then 0 else Suc (halvings n (x / 2)))"

fun doublings :: "nat \<Rightarrow> rat \<Rightarrow> nat" where
  "doublings 0 x = 0"
| "doublings (Suc n) x = (if 1 \<le> x then 0 else Suc (doublings n (x * 2)))"

definition binary_exponent :: "rat \<Rightarrow> int" where
  "binary_exponent x = (if 1 \<le> x then int (halvings 1100 x) else - int (doublings 1100 x))"

definition pow2 :: "int \<Rightarrow> rat" where
  "pow2 k = (if 0 \<le> k then 2 ^ nat k else 1 / 2 ^ nat (- k))"

definition round_half_even :: "rat \<Rightarrow> int" where
  "round_half_even y =
     (let n = \<lfloor>y\<rfloor>; r = y - of_int n in
      if r < 1 / 2 then n else if 1 / 2 < r then n + 1 else if even n then n else n + 1)"

definition fl :: "rat \<Rightarrow> rat" where
  "fl x =
     (if x = 0 then 0
      else
        let quantum = pow2 (max (binary_exponent \<bar>x\<bar>) (- 1022) - 52)
        in sgn x * of_int (round_half_even (\<bar>x\<bar> / quantum)) * quantum)"

section \<open>JavaScript strings\<close>

text \<open>
  Strings are lists of characters, the code units below 256. \<open>trim\<close> removes the white
  space and the line terminators at both ends; in this range they are tab, line feed,
  vertical tab, form feed, carriage return, space and the no-break space U+00A0.
  \<open>split\<close> cuts a string at every occurrence of the separator, so the empty string gives
  one empty part.
\<close>

definition is_white :: "char \<Rightarrow> bool" where
  "is_white c =
     (c \<in> set [CHR 0x09, CHR 0x0A, CHR 0x0B, CHR 0x0C, CHR 0x0D, CHR '' '', CHR 0xA0])"

definition trim :: "string \<Rightarrow> string" where
  "trim s = rev (dropWhile is_white (rev (dropWhile is_white s)))"

fun split :: "char \<Rightarrow> string \<Rightarrow> string list" where
  "split c [] = [[]]"
| "split c (x # xs) =
     (if x = c then [] # split c xs
      else case split c xs of [] \<Rightarrow> [[x]] | p # ps \<Rightarrow> (x # p) # ps)"

text \<open>
  \<open>toString\<close> of an integer-valued number: the decimal digits, with a minus sign for
  a negative one (for magnitudes below \<open>10^21\<close>, where the language switches to
  exponent notation). \<open>padStart(2, "0")\<close> fills a string up to two characters.
\<close>

fun digits :: "nat \<Rightarrow> string" where
  "digits n =
     (if n < 10 then [''0123456789'' ! n]
      else digits (n div 10) @ [''0123456789'' ! (n mod 10)])"

definition toString :: "int \<Rightarrow> string" where
  "toString i = (if i < 0 then CHR ''-'' # digits (nat (- i)) else digits (nat i))"

definition padStart2 :: "string \<Rightarrow> string" where
  "padStart2 s = replicate (2 - length s) CHR ''0'' @ s"

section \<open>The daily log sheet (components/ELDLogSheet)\<close>

text \<open>
  A period of a day log as the backend sends it. The two hour fields hold the result of
  \<open>Number(...)\<close> applied to the field.
\<close>

record period =
  status :: string
  start_hour_of_day :: jsnum
  end_hour_of_day :: jsnum

text \<open>A period of the normalised list: \<open>{ start, end, status }\<close>.\<close>

record seg =
  start :: rat
  end' :: rat
  seg_status :: string

text \<open>
  \<open>STATUS_ROWS\<close> has the four keys below, and \<open>STATUS_BY_KEY\<close> is built from it by
  \<open>reduce\<close> into the object literal \<open>{}\<close>. A property read \<open>STATUS_BY_KEY[k]\<close>
  therefore finds an own property for the four keys and, for every other key, follows the
  prototype chain to \<open>Object.prototype\<close>, whose properties are listed in
  \<open>object_prototype_keys\<close>. Each of them holds a function or an object, which is
  truthy; any other key reads \<open>undefined\<close>.
\<close>

definition STATUS_ROWS :: "string list" where
  "STATUS_ROWS = [''off_duty'', ''sleeper'', ''driving'', ''on_duty_not_driving'']"

definition object_prototype_keys :: "string list" where
  "object_prototype_keys =
     [''constructor'', ''hasOwnProperty'', ''isPrototypeOf'', ''propertyIsEnumerable'',
      ''toLocaleString'', ''toString'', ''valueOf'', ''__proto__'',
      ''__defineGetter__'', ''__defineSetter__'', ''__lookupGetter__'', ''__lookupSetter__'']"

datatype lookup = Row nat | Inherited | Undefined

fun index_of :: "string \<Rightarrow> string list \<Rightarrow> nat option" where
  "index_of k [] = None"
| "index_of k (x # xs) =
     (if k = x then Some 0 else map_option Suc (index_of k xs))"

definition STATUS_BY_KEY :: "string \<Rightarrow> lookup" where
  "STATUS_BY_KEY k =
     (case index_of k STATUS_ROWS of
        Some level \<Rightarrow> Row level
      | None \<Rightarrow> if k \<in> set object_prototype_keys then Inherited else Undefined)"

definition truthy :: "lookup \<Rightarrow> bool" where
  "truthy v = (v \<noteq> Undefined)"

text \<open>
  \<open>clampHour(hour) = Math.max(0, Math.min(24, Number(hour) || 0))\<close>. NaN is falsy, so
  \<open>|| 0\<close> replaces it by 0; \<open>Math.min(24, Infinity)\<close> is 24 and
  \<open>Math.max(0, -Infinity)\<close> is 0. The result is always finite.
\<close>

fun clampHour :: "jsnum \<Rightarrow> rat" where
  "clampHour NaN = 0"
| "clampHour (Num r) = max 0 (min 24 r)"
| "clampHour PInf = 24"
| "clampHour NInf = 0"

text \<open>The body of the \<open>forEach\<close>: the periods one input period pushes onto \<open>normalized\<close>.\<close>

definition pushes :: "period \<Rightarrow> seg list" where
  "pushes p =
     (if \<not> truthy (STATUS_BY_KEY (status p)) then []
      else
        let s = clampHour (start_hour_of_day p); e = clampHour (end_hour_of_day p) in
        if e > s then [\<lparr>start = s, end' = e, seg_status = status p\<rparr>]
        else
          (if s < 24 then [\<lparr>start = s, end' = 24, seg_status = status p\<rparr>] else []) @
          (if e > 0 then [\<lparr>start = 0, end' = e, seg_status = status p\<rparr>] else []))"

definition normalized :: "period list \<Rightarrow> seg list" where
  "normalized periods = concat (map pushes periods)"

text \<open>
  The comparator \<open>(a, b) => a.start - b.start || a.end - b.end\<close>, and
  \<open>Array.prototype.sort\<close> with it: a stable sort, here by insertion. The comparator is
  a total preorder, so every stable sort gives this result. The difference of two doubles
  has the sign of their exact difference and is zero only when they are equal, which is
  all that the sort reads of it.
\<close>

definition compare_seg :: "seg \<Rightarrow> seg \<Rightarrow> rat" where
  "compare_seg a b = (if start a - start b \<noteq> 0 then start a - start b else end' a - end' b)"

fun insert_sorted :: "seg \<Rightarrow> seg list \<Rightarrow> seg list" where
  "insert_sorted a [] = [a]"
| "insert_sorted a (b # bs) =
     (if compare_seg a b \<le> 0 then a # b # bs else b # insert_sorted a bs)"

definition sort_segs :: "seg list \<Rightarrow> seg list" where
  "sort_segs xs = foldr insert_sorted xs []"

text \<open>
  One round of the loop over \<open>sorted\<close>: the state is \<open>withFullDayCoverage\<close> and
  \<open>cursor\<close>.
\<close>

definition cover_step :: "seg list \<times> rat \<Rightarrow> seg \<Rightarrow> seg list \<times> rat" where
  "cover_step acc p =
     (let out = fst acc; cursor = snd acc;
          s = max cursor (start p);
          e = max s (end' p);
          out1 = (if s > cursor
                  then out @ [\<lparr>start = cursor, end' = s, seg_status = ''off_duty''\<rparr>]
                  else out)
      in if e > s then (out1 @ [\<lparr>start = s, end' = e, seg_status = seg_status p\<rparr>], e)
         else (out1, cursor))"

definition normalizePeriods :: "period list \<Rightarrow> seg list" where
  "normalizePeriods periods =
     (let sorted = sort_segs (normalized periods) in
      if sorted = [] then [\<lparr>start = 0, end' = 24, seg_status = ''off_duty''\<rparr>]
      else
        let acc = foldl cover_step ([], 0) sorted in
        if snd acc < 24
        then fst acc @ [\<lparr>start = snd acc, end' = 24, seg_status = ''off_duty''\<rparr>]
        else fst acc)"

text \<open>
  \<open>totalsFromPeriods\<close>: the accumulator has the four own properties below. The
  subtraction and the addition are those of doubles. For a status that is none of the
  four, \<open>acc[period.status] += duration\<close> writes some other property and leaves the four
  totals as they are.
\<close>

record totals =
  off_duty :: rat
  sleeper :: rat
  driving :: rat
  on_duty_not_driving :: rat

definition add_duration :: "totals \<Rightarrow> seg \<Rightarrow> totals" where
  "add_duration acc p =
     (let duration = max 0 (fl (end' p - start p)) in
      if seg_status p = ''off_duty'' then acc\<lparr>off_duty := fl (off_duty acc + duration)\<rparr>
      else if seg_status p = ''sleeper'' then acc\<lparr>sleeper := fl (sleeper acc + duration)\<rparr>
      else if seg_status p = ''driving'' then acc\<lparr>driving := fl (driving acc + duration)\<rparr>
      else if seg_status p = ''on_duty_not_driving''
        then acc\<lparr>on_duty_not_driving := fl (on_duty_not_driving acc + duration)\<rparr>
      else acc)"

definition totalsFromPeriods :: "seg list \<Rightarrow> totals" where
  "totalsFromPeriods periods =
     foldl add_duration
       \<lparr>off_duty = 0, sleeper = 0, driving = 0, on_duty_not_driving = 0\<rparr> periods"

text \<open>The sum of the four totals, as a number of hours.\<close>

definition total_hours :: "totals \<Rightarrow> rat" where
  "total_hours t = off_duty t + sleeper t + driving t + on_duty_not_driving t"

section \<open>Trip times (utils/time.js)\<close>

text \<open>
  \<open>formatTripTime(absHour, separator)\<close>; \<open>absHour\<close> is the result of
  \<open>Number(absHour)\<close>. The division and the multiplication are those of doubles; the
  two remainders are exact. For an infinite argument the day is \<open>Infinity\<close> and
  \<open>numeric % 24\<close> is NaN, which \<open>toString\<close> prints as \<open>NaN\<close>.
\<close>

definition formatTripTime :: "jsnum \<Rightarrow> string \<Rightarrow> string" where
  "formatTripTime absHour separator =
     (case or_zero absHour of
        Num numeric \<Rightarrow>
          let day = \<lfloor>fl (numeric / 24)\<rfloor> + 1;
              h = js_rem numeric 24;
              hh = padStart2 (toString \<lfloor>h\<rfloor>);
              mm = padStart2 (toString (js_round (fl (js_rem h 1 * 60))))
          in ''Day '' @ toString day @ separator @ hh @ '':'' @ mm
      | PInf \<Rightarrow> ''Day Infinity'' @ separator @ ''NaN:NaN''
      | NInf \<Rightarrow> ''Day -Infinity'' @ separator @ ''NaN:NaN''
      | NaN \<Rightarrow> ''Day NaN'' @ separator @ ''NaN:NaN'')"

definition formatAbsoluteTime :: "jsnum \<Rightarrow> string" where
  "formatAbsoluteTime absHour = formatTripTime absHour '' ''"

section \<open>The trip service (services/tripService)\<close>

record form =
  currentLocation :: string
  pickupLocation :: string
  dropoffLocation :: string
  currentCycleUsed :: string

text \<open>The body of the request that \<open>planTrip\<close> posts to \<open>/trips/plan/\<close>.\<close>

record request =
  current_location :: string
  pickup_location :: string
  dropoff_location :: string
  current_cycle_used :: jsnum
  cycle_rule :: string
  adverse_driving_conditions :: bool
  short_haul_mode :: string
  use_16_hour_exception :: bool
  used_16_hour_in_last_7_days :: bool
  return_to_reporting_location :: bool
  enable_34h_restart :: bool

text \<open>
  The built-in \<open>parseFloat\<close> of the language is a parameter of the model, a function
  from strings to numbers.
\<close>

definition planTrip_body :: "(string \<Rightarrow> jsnum) \<Rightarrow> form \<Rightarrow> request" where
  "planTrip_body parseFloat f =
     \<lparr>current_location = currentLocation f,
      pickup_location = pickupLocation f,
      dropoff_location = dropoffLocation f,
      current_cycle_used = or_zero (parseFloat (currentCycleUsed f)),
      cycle_rule = ''70_8'',
      adverse_driving_conditions = False,
      short_haul_mode = ''none'',
      use_16_hour_exception = False,
      used_16_hour_in_last_7_days = False,
      return_to_reporting_location = True,
      enable_34h_restart = True\<rparr>"

text \<open>
  A trip plan as the application reads it: its \<open>plan_id\<close>, and the rest of the
  response. A failed request throws an error object, of which the handler reads
  \<open>code\<close>, \<open>response\<close> (absent, or present with its \<open>data.error\<close>) and
  \<open>message\<close>.
\<close>

record plan =
  plan_id :: string
  plan_data :: string

record axios_error =
  code :: "string option"
  response :: "string option option"
  message :: "string option"

text \<open>\<open>planTrip\<close> posts the body and returns \<open>resp.data\<close>, or throws.\<close>

definition planTrip ::
  "(string \<Rightarrow> jsnum) \<Rightarrow> (request \<Rightarrow> axios_error + plan) \<Rightarrow> form \<Rightarrow> axios_error + plan" where
  "planTrip parseFloat post f = post (planTrip_body parseFloat f)"

section \<open>The application (App)\<close>

text \<open>
  \<open>isCoordinatePair(value)\<close>. The built-in conversion \<open>Number\<close> of a string is a
  parameter, \<open>toNumber\<close>.
\<close>

definition isCoordinatePair :: "(string \<Rightarrow> jsnum) \<Rightarrow> string \<Rightarrow> bool" where
  "isCoordinatePair toNumber v =
     (let parts = map trim (split CHR '','' v) in
      if length parts \<noteq> 2 then False
      else
        let lat = toNumber (parts ! 0); lng = toNumber (parts ! 1) in
        isFinite lat \<and> isFinite lng \<and>
        js_le (Num (- 90)) lat \<and> js_le lat (Num 90) \<and>
        js_le (Num (- 180)) lng \<and> js_le lng (Num 180))"

text \<open>The state of the component: the values of its \<open>useState\<close> hooks that the handler uses.\<close>

record app =
  form :: form
  loading :: bool
  error :: "string option"
  tripData :: "plan option"
  tripPlans :: "plan list"
  activeTab :: string

text \<open>The message of the \<open>catch\<close> block.\<close>

definition error_message :: "axios_error \<Rightarrow> string" where
  "error_message err =
     (if code err = Some ''ECONNABORTED'' then ''Request timed out. Please try again.''
      else case response err of
        None \<Rightarrow> ''Cannot reach the server. Check your connection and API URL.''
      | Some data_error \<Rightarrow>
          (case data_error of
             Some e \<Rightarrow>
               if e \<noteq> [] then e
               else (case message err of Some m \<Rightarrow> m
                     | None \<Rightarrow> ''Unable to plan this trip right now. Please try again.'')
           | None \<Rightarrow>
               (case message err of Some m \<Rightarrow> m
                | None \<Rightarrow> ''Unable to plan this trip right now. Please try again.'')))"

text \<open>The updater passed to \<open>setTripPlans\<close> after a successful request.\<close>

definition save_plan :: "plan \<Rightarrow> plan list \<Rightarrow> plan list" where
  "save_plan data prev =
     (let deduped = filter (\<lambda>p. plan_id p \<noteq> plan_id data) prev in take 10 (data # deduped))"

text \<open>
  The constant \<open>cycleUsed\<close> of \<open>handleSubmit\<close>: the field is trimmed, an empty
  result counts as 0, and anything else goes through \<open>parseFloat\<close>.
\<close>

definition cycleUsed :: "(string \<Rightarrow> jsnum) \<Rightarrow> form \<Rightarrow> jsnum" where
  "cycleUsed parseFloat f =
     (let cycleUsedRaw = trim (currentCycleUsed f) in
      if cycleUsedRaw = [] then Num 0 else parseFloat cycleUsedRaw)"

text \<open>
  \<open>handleSubmit\<close>, from the click to the end of the \<open>finally\<close> block. The server is
  the function \<open>post\<close>. The result is the new state and the list of the requests sent.
  Its only caller is the submit button of the form, which is disabled while \<open>loading\<close>
  is true.
\<close>

definition handleSubmit ::
  "(string \<Rightarrow> jsnum) \<Rightarrow> (string \<Rightarrow> jsnum) \<Rightarrow> (request \<Rightarrow> axios_error + plan) \<Rightarrow>
   app \<Rightarrow> app \<times> request list" where
  "handleSubmit parseFloat toNumber post s =
     (if loading s then (s, [])
      else
        let f = form s in
        if trim (currentLocation f) = [] \<or> trim (pickupLocation f) = [] \<or>
           trim (dropoffLocation f) = []
        then (s\<lparr>error := Some ''Please fill in all three locations.''\<rparr>, [])
        else if \<not> isCoordinatePair toNumber (currentLocation f) \<or>
                \<not> isCoordinatePair toNumber (pickupLocation f) \<or>
                \<not> isCoordinatePair toNumber (dropoffLocation f)
        then (s\<lparr>error := Some ''Use coordinates in 'lat,lng' format for all three locations.''\<rparr>,
              [])
        else if isNaN (cycleUsed parseFloat f) \<or> js_less (cycleUsed parseFloat f) (Num 0) \<or>
                js_less (Num 70) (cycleUsed parseFloat f)
        then (s\<lparr>error := Some ''Current Cycle Used must be a number between 0 and 70.''\<rparr>, [])
        else
          (case planTrip parseFloat post f of
             Inr data \<Rightarrow>
               s\<lparr>error := None, loading := False, tripData := Some data,
                 tripPlans := save_plan data (tripPlans s), activeTab := ''map''\<rparr>
           | Inl err \<Rightarrow> s\<lparr>error := Some (error_message err), loading := False\<rparr>,
           [planTrip_body parseFloat f]))"

text \<open>
  \<open>loadInitialState\<close>, run once when the component is mounted: \<open>recent\<close> is the answer
  to \<open>fetchRecentTripPlans(10)\<close> (the empty list when the request fails) and \<open>latest\<close>
  the answer to \<open>fetchLatestTripPlan()\<close> (null when it fails or finds nothing). The list
  of the server is stored as it comes.
\<close>

definition loadInitialState :: "plan list \<Rightarrow> plan option \<Rightarrow> app \<Rightarrow> app" where
  "loadInitialState recent latest s =
     (if recent \<noteq> [] then s\<lparr>tripPlans := recent, tripData := Some (hd recent)\<rparr>
      else case latest of
        Some l \<Rightarrow> s\<lparr>tripData := Some l, tripPlans := [l]\<rparr>
      | None \<Rightarrow> s)"

section \<open>The scheduling engine\<close>

text \<open>
  The engine that simulates a trip under the hours-of-service rules runs in the backend,
  which is not among the sources of the frontend. It is modelled here from the
  specification, sections 3, 4.1, 4.2, 4.3 and 7. The fields of \<open>DriveParameters\<close> carry
  the prefix \<open>dp\<close>, since the request body has fields of the same names.
\<close>

text \<open>Modelled from the spec: the backend's cycle rule, \<open>cycle_rule \<in> {70_8, 60_7}\<close> (section 3).\<close>

datatype cycle_rule_kind = Rule_70_8 | Rule_60_7

text \<open>
  Modelled from the spec: the backend's short-haul mode,
  \<open>short_haul_mode \<in> {none, 150_air_mile}\<close> (section 3).
\<close>

datatype short_haul_kind = Short_haul_none | Short_haul_150_air_mile

text \<open>Modelled from the spec: the backend's \<open>DriveParameters\<close> (section 3).\<close>

record DriveParameters =
  current_cycle_used_hours :: rat
  dp_cycle_rule :: cycle_rule_kind
  dp_adverse_driving_conditions :: bool
  dp_short_haul_mode :: short_haul_kind
  dp_use_16_hour_exception :: bool
  dp_used_16_hour_in_last_7_days :: bool
  dp_enable_34h_restart :: bool

text \<open>
  Modelled from the spec: the backend's \<open>RouteLeg\<close> (section 3), without the
  coordinates, which the simulation does not read.
\<close>

record RouteLeg =
  distance_miles :: rat
  duration_hours :: rat

text \<open>
  Modelled from the spec: the backend's \<open>CycleState\<close> (section 3). Its six counters are
  followed by four items that the rules of section 4.1 need: the driving hours within the
  on-duty window (the 11-hour cap), the consecutive off-duty hours (the 34-hour restart),
  whether a restart has reset the cycle, and whether the 16-hour exception has been used.
\<close>

record CycleState =
  drive_hours_since_break :: rat
  on_duty_window_elapsed :: rat
  cycle_hours_used :: rat
  odometer_miles :: rat
  absolute_hour :: rat
  miles_since_fuel :: rat
  window_driving_hours :: rat
  off_duty_run_hours :: rat
  restart_occurred :: bool
  exception_16_used :: bool

text \<open>
  Modelled from the spec: the backend's cycle limit, \<open>cycle_limit = 70\<close> for \<open>70_8\<close> and
  \<open>60\<close> for \<open>60_7\<close> (section 4.1).
\<close>

definition cycle_limit :: "DriveParameters \<Rightarrow> rat" where
  "cycle_limit p = (case dp_cycle_rule p of Rule_70_8 \<Rightarrow> 70 | Rule_60_7 \<Rightarrow> 60)"

text \<open>
  Modelled from the spec: the extension of the backend's caps under adverse driving
  conditions, 2 hours on the driving cap and on the window cap (section 4.1).
\<close>

definition adverse_extension :: "DriveParameters \<Rightarrow> rat" where
  "adverse_extension p = (if dp_adverse_driving_conditions p then 2 else 0)"

text \<open>
  Modelled from the spec: the backend's on-duty window cap: 14 hours, or 16 when
  \<open>use_16_hour_exception\<close> is set, the exception is not yet used this cycle and
  \<open>used_16_hour_in_last_7_days\<close> is false, extended under adverse driving conditions
  (section 4.1).
\<close>

definition window_cap :: "DriveParameters \<Rightarrow> CycleState \<Rightarrow> rat" where
  "window_cap p s =
     (if dp_use_16_hour_exception p \<and> \<not> exception_16_used s \<and>
         \<not> dp_used_16_hour_in_last_7_days p
      then 16 else 14) + adverse_extension p"

text \<open>
  Modelled from the spec: the backend's driving cap within a window: 11 hours, and 2 hours
  more under adverse driving conditions (section 4.1).
\<close>

definition drive_cap :: "DriveParameters \<Rightarrow> rat" where
  "drive_cap p = 11 + adverse_extension p"

text \<open>
  Modelled from the spec: the backend's short-haul exemption from the 30-minute break
  (section 4.1).
\<close>

definition break_exempt :: "DriveParameters \<Rightarrow> bool" where
  "break_exempt p = (dp_short_haul_mode p = Short_haul_150_air_mile)"

text \<open>Modelled from the spec: the query \<open>canDriveContinuously(d)\<close> of the backend's HOSClock (section 4.1).\<close>

definition canDriveContinuously :: "DriveParameters \<Rightarrow> CycleState \<Rightarrow> rat \<Rightarrow> bool" where
  "canDriveContinuously p s d =
     ((break_exempt p \<or> drive_hours_since_break s + d \<le> 8) \<and>
      on_duty_window_elapsed s + d \<le> window_cap p s \<and>
      window_driving_hours s + d \<le> drive_cap p)"

text \<open>
  Modelled from the spec: the query \<open>cycleHasCapacity(d)\<close> of the backend's HOSClock,
  true iff \<open>cycle_hours_used + d \<le> cycle_limit\<close> (section 4.1).
\<close>

definition cycleHasCapacity :: "DriveParameters \<Rightarrow> CycleState \<Rightarrow> rat \<Rightarrow> bool" where
  "cycleHasCapacity p s d = (cycle_hours_used s + d \<le> cycle_limit p)"

text \<open>
  Modelled from the spec: the query \<open>needsBreak()\<close> of the backend's HOSClock, true iff
  \<open>drive_hours_since_break \<ge> 8\<close>, asked when driving is about to start (section 4.1).
\<close>

definition needsBreak :: "DriveParameters \<Rightarrow> CycleState \<Rightarrow> bool" where
  "needsBreak p s = (\<not> break_exempt p \<and> drive_hours_since_break s \<ge> 8)"

text \<open>
  Modelled from the spec: the query \<open>needsRest()\<close> of the backend's HOSClock, true iff
  the on-duty window has reached its cap or the driving limit would otherwise be breached
  (section 4.1).
\<close>

definition needsRest :: "DriveParameters \<Rightarrow> CycleState \<Rightarrow> bool" where
  "needsRest p s =
     (on_duty_window_elapsed s \<ge> window_cap p s \<or> window_driving_hours s \<ge> drive_cap p)"

text \<open>
  Modelled from the spec: the actions of the backend's StopPolicy (section 4.2): the 1-hour
  pickup or dropoff period, the 10-hour rest, the 30-minute break, the fuel stop, and
  driving for a duration.
\<close>

datatype action = Handling | Rest | Break_30 | Fuel | Drive rat

text \<open>
  Modelled from the spec: the \<open>distance_to_next_trigger\<close> of rule 6 of the backend's
  StopPolicy (section 4.2), in hours of driving at the speed of the leg: the time until a
  rest, a fuel stop or a break falls due.
\<close>

definition distance_to_next_trigger :: "DriveParameters \<Rightarrow> CycleState \<Rightarrow> rat \<Rightarrow> rat" where
  "distance_to_next_trigger p s speed =
     (let to_rest = min (window_cap p s - on_duty_window_elapsed s)
                        (drive_cap p - window_driving_hours s);
          to_fuel = (1000 - miles_since_fuel s) / speed;
          to_break = 8 - drive_hours_since_break s
      in if break_exempt p then min to_rest to_fuel else min (min to_rest to_fuel) to_break)"

text \<open>
  Modelled from the spec: the decision of the backend's StopPolicy (section 4.2), its six
  rules in their fixed precedence, the first satisfied winning. \<open>arrived\<close> says that a
  pickup or dropoff waypoint has just been reached; the duration proposed for driving is
  that of rule 6, \<open>min(remaining_leg_time, distance_to_next_trigger)\<close>.
\<close>

definition next_action ::
  "DriveParameters \<Rightarrow> CycleState \<Rightarrow> bool \<Rightarrow> rat \<Rightarrow> rat \<Rightarrow> action" where
  "next_action p s arrived remaining speed =
     (let d = min remaining (distance_to_next_trigger p s speed) in
      if arrived then Handling
      else if needsRest p s then Rest
      else if \<not> cycleHasCapacity p s d then Rest
      else if needsBreak p s then Break_30
      else if miles_since_fuel s \<ge> 1000 then Fuel
      else Drive d)"

text \<open>
  Modelled from the spec: an off-duty period of \<open>h\<close> hours in the backend's simulator;
  when the consecutive off-duty hours reach 34 and \<open>enable_34h_restart\<close> is set, the
  period resets \<open>cycle_hours_used\<close> to zero (sections 4.1 and 4.2).
\<close>

definition go_off_duty :: "DriveParameters \<Rightarrow> rat \<Rightarrow> CycleState \<Rightarrow> CycleState" where
  "go_off_duty p h s =
     (let run = off_duty_run_hours s + h;
          s1 = s\<lparr>absolute_hour := absolute_hour s + h, off_duty_run_hours := run\<rparr>
      in if run \<ge> 34 \<and> dp_enable_34h_restart p
         then s1\<lparr>cycle_hours_used := 0, restart_occurred := True\<rparr>
         else s1)"

text \<open>
  Modelled from the spec: the effect of an action on the \<open>CycleState\<close> in the backend's
  simulator (sections 4.1, 4.2 and 4.3b). The pickup or dropoff hour counts against the
  on-duty window and the cycle, not against the driving limits; a rest zeroes the break
  and window counters, and marks the 16-hour exception as used when the window it closes
  ran beyond the cap that holds without the exception; a break zeroes the break counter; a
  fuel stop zeroes \<open>miles_since_fuel\<close>; driving advances every counter and the
  odometer. Whether a restart gives the exception back is left open by the specification
  (section 9); here it stays used.
\<close>

fun apply_action :: "DriveParameters \<Rightarrow> rat \<Rightarrow> CycleState \<Rightarrow> action \<Rightarrow> CycleState" where
  "apply_action p speed s Handling =
     s\<lparr>absolute_hour := absolute_hour s + 1,
       on_duty_window_elapsed := on_duty_window_elapsed s + 1,
       cycle_hours_used := cycle_hours_used s + 1,
       off_duty_run_hours := 0\<rparr>"
| "apply_action p speed s Rest =
     go_off_duty p 10
       (s\<lparr>drive_hours_since_break := 0, on_duty_window_elapsed := 0,
          window_driving_hours := 0,
          exception_16_used :=
            (exception_16_used s \<or> 14 + adverse_extension p < on_duty_window_elapsed s)\<rparr>)"
| "apply_action p speed s Break_30 =
     go_off_duty p (1 / 2) (s\<lparr>drive_hours_since_break := 0\<rparr>)"
| "apply_action p speed s Fuel = s\<lparr>miles_since_fuel := 0\<rparr>"
| "apply_action p speed s (Drive d) =
     s\<lparr>absolute_hour := absolute_hour s + d,
       drive_hours_since_break := drive_hours_since_break s + d,
       on_duty_window_elapsed := on_duty_window_elapsed s + d,
       window_driving_hours := window_driving_hours s + d,
       cycle_hours_used := cycle_hours_used s + d,
       odometer_miles := odometer_miles s + speed * d,
       miles_since_fuel := miles_since_fuel s + speed * d,
       off_duty_run_hours := 0\<rparr>"

text \<open>Modelled from the spec: the hours of a leg that an action of the backend's simulator drives.\<close>

fun driven :: "action \<Rightarrow> rat" where
  "driven (Drive d) = d"
| "driven a = 0"

text \<open>Modelled from the spec: the error kinds of the backend's engine (section 7).\<close>

datatype sim_error = InvalidParameters | DegenerateRoute | SimulationDivergence

text \<open>
  Modelled from the spec: the timeline that the backend's simulator emits, as the list of
  its actions, each with the \<open>CycleState\<close> at its end.
\<close>

type_synonym timeline = "(action \<times> CycleState) list"

text \<open>
  Modelled from the spec: the loop of the backend's simulator over one leg (section 4.3b
  and c): while time remains in the leg, the StopPolicy is asked for the next action,
  which is appended and applied. \<open>steps\<close> is what is left of the iteration cap; reaching
  it is the error SimulationDivergence.
\<close>

fun drive_leg ::
  "nat \<Rightarrow> DriveParameters \<Rightarrow> rat \<Rightarrow> rat \<Rightarrow> CycleState \<Rightarrow> timeline \<Rightarrow>
   sim_error + nat \<times> CycleState \<times> timeline" where
  "drive_leg steps p speed remaining s line =
     (if remaining \<le> 0 then Inr (steps, s, line)
      else case steps of
        0 \<Rightarrow> Inl SimulationDivergence
      | Suc k \<Rightarrow>
          let a = next_action p s False remaining speed;
              s' = apply_action p speed s a
          in drive_leg k p speed (remaining - driven a) s' (line @ [(a, s')]))"

text \<open>
  Modelled from the spec: a degenerate leg of the backend's route, with zero duration and
  nonzero distance or the reverse (section 7).
\<close>

definition degenerate :: "RouteLeg \<Rightarrow> bool" where
  "degenerate leg = ((duration_hours leg = 0) \<noteq> (distance_miles leg = 0))"

text \<open>
  Modelled from the spec: the loop of the backend's simulator over the legs (section 4.3):
  current to pickup, pickup to dropoff, and the optional return. The first two legs end at
  the pickup and the dropoff waypoint, where rule 1 of the StopPolicy applies.
\<close>

fun run_legs ::
  "nat \<Rightarrow> DriveParameters \<Rightarrow> nat \<Rightarrow> RouteLeg list \<Rightarrow> CycleState \<Rightarrow> timeline \<Rightarrow>
   sim_error + timeline" where
  "run_legs steps p i [] s line = Inr line"
| "run_legs steps p i (leg # legs) s line =
     (if degenerate leg then Inl DegenerateRoute
      else
        let speed = distance_miles leg / duration_hours leg in
        case drive_leg steps p speed (duration_hours leg) s line of
          Inl e \<Rightarrow> Inl e
        | Inr (steps', s', line') \<Rightarrow>
            if i < 2
            then let a = next_action p s' True 0 speed;
                     s'' = apply_action p speed s' a
                 in run_legs steps' p (Suc i) legs s'' (line' @ [(a, s'')])
            else run_legs steps' p (Suc i) legs s' line')"

text \<open>
  Modelled from the spec: the \<open>CycleState\<close> at the start of a run of the backend's
  simulator, seeded with \<open>cycle_hours_used = current_cycle_used_hours\<close> (section 4.3).
\<close>

definition initial_state :: "DriveParameters \<Rightarrow> CycleState" where
  "initial_state p =
     \<lparr>drive_hours_since_break = 0, on_duty_window_elapsed = 0,
      cycle_hours_used = current_cycle_used_hours p, odometer_miles = 0, absolute_hour = 0,
      miles_since_fuel = 0, window_driving_hours = 0, off_duty_run_hours = 0,
      restart_occurred = False, exception_16_used = False\<rparr>"

text \<open>
  Modelled from the spec: a run of the backend's simulator (sections 4.3 and 7):
  \<open>current_cycle_used\<close> outside \<open>[0, cycle_limit]\<close> is rejected before the simulation
  starts, and the iteration cap is 10,000 steps.
\<close>

definition simulate :: "DriveParameters \<Rightarrow> RouteLeg list \<Rightarrow> sim_error + timeline" where
  "simulate p legs =
     (if current_cycle_used_hours p < 0 \<or> cycle_limit p < current_cycle_used_hours p
      then Inl InvalidParameters
      else run_legs 10000 p 0 legs (initial_state p) [])"

section \<open>Notions used in the statements\<close>

text \<open>
  A normalised period lies within the day; a list of periods is a chain from \<open>a\<close> to
  \<open>b\<close> when the first starts at \<open>a\<close>, each one is non-empty and starts where the one
  before it ends, and the last ends at \<open>b\<close>.
\<close>

definition valid_seg :: "seg \<Rightarrow> bool" where
  "valid_seg p = (0 \<le> start p \<and> start p < end' p \<and> end' p \<le> 24)"

fun chain :: "rat \<Rightarrow> seg list \<Rightarrow> rat \<Rightarrow> bool" where
  "chain a [] b = (a = b)"
| "chain a (p # ps) b = (start p = a \<and> a < end' p \<and> chain (end' p) ps b)"

text \<open>
  Two periods overlap when each starts before the other ends. A pushed period is
  unobstructed in a list when no other period of the list overlaps it.
\<close>

definition overlaps :: "seg \<Rightarrow> seg \<Rightarrow> bool" where
  "overlaps a b = (start a < end' b \<and> start b < end' a)"

definition unobstructed :: "seg \<Rightarrow> seg list \<Rightarrow> bool" where
  "unobstructed q xs = (\<forall>b \<in> set xs. b = q \<or> \<not> overlaps b q)"

text \<open>
  Sample values for the parameters of the application: a conversion and a parser that
  agree with \<open>Number\<close> and \<open>parseFloat\<close> of the language on the strings they are
  applied to below (\<open>parseFloat\<close> of a blank string and of \<open>abc\<close> is NaN), a server
  that answers every request with the same plan, and a state of the component with three
  valid locations.
\<close>

definition sample_Number :: "string \<Rightarrow> jsnum" where
  "sample_Number t =
     (if t = ''41.5'' then Num (83 / 2) else if t = ''-87.5'' then Num (- 175 / 2) else NaN)"

definition sample_parseFloat :: "string \<Rightarrow> jsnum" where
  "sample_parseFloat t =
     (if t = ''35'' then Num 35 else if t = ''80'' then Num 80 else NaN)"

definition sample_post :: "request \<Rightarrow> axios_error + plan" where
  "sample_post r = Inr \<lparr>plan_id = ''plan-2'', plan_data = ''{}''\<rparr>"

definition sample_app :: "string \<Rightarrow> bool \<Rightarrow> plan list \<Rightarrow> app" where
  "sample_app cycle busy plans =
     \<lparr>form = \<lparr>currentLocation = ''41.5,-87.5'', pickupLocation = ''41.5, -87.5'',
              dropoffLocation = '' 41.5 ,-87.5'', currentCycleUsed = cycle\<rparr>,
      loading = busy, error = None, tripData = None, tripPlans = plans,
      activeTab = ''eld''\<rparr>"





text \<open>
  A sample trip for the engine: 69 hours of the 70-hour cycle used, restart enabled, and
  legs of one, two and one hour at 50 miles per hour.
\<close>

definition sample_parameters :: DriveParameters where
  "sample_parameters =
     \<lparr>current_cycle_used_hours = 69, dp_cycle_rule = Rule_70_8,
      dp_adverse_driving_conditions = False, dp_short_haul_mode = Short_haul_none,
      dp_use_16_hour_exception = False, dp_used_16_hour_in_last_7_days = False,
      dp_enable_34h_restart = True\<rparr>"


section \<open>Properties of the daily log sheet\<close>

subsection \<open>The normalised periods partition the day\<close>

lemma clampHour_bounds: "0 \<le> clampHour h \<and> clampHour h \<le> 24"
  by (cases h) auto

lemma pushes_valid: "q \<in> set (pushes p) \<Longrightarrow> valid_seg q"
  using clampHour_bounds [of "start_hour_of_day p"] clampHour_bounds [of "end_hour_of_day p"]
  by (auto simp: pushes_def valid_seg_def Let_def split: if_splits)

lemma normalized_valid: "q \<in> set (normalized ps) \<Longrightarrow> valid_seg q"
  by (auto simp: normalized_def dest: pushes_valid)

lemma set_insert_sorted: "set (insert_sorted a xs) = insert a (set xs)"
  by (induction xs) auto

lemma set_sort_segs: "set (sort_segs xs) = set xs"
  by (induction xs) (auto simp: sort_segs_def set_insert_sorted)

lemma chain_append: "chain a (xs @ ys) c \<longleftrightarrow> (\<exists>b. chain a xs b \<and> chain b ys c)"
  by (induction xs arbitrary: a) auto

lemma cover_step_chain:
  assumes "chain 0 (fst acc) (snd acc)" "snd acc \<le> 24" "valid_seg p"
  shows "chain 0 (fst (cover_step acc p)) (snd (cover_step acc p)) \<and>
         snd (cover_step acc p) \<le> 24"
  using assms
  by (auto simp: cover_step_def Let_def valid_seg_def chain_append max_def)

lemma foldl_cover_chain:
  "chain 0 (fst acc) (snd acc) \<Longrightarrow> snd acc \<le> 24 \<Longrightarrow> \<forall>p \<in> set xs. valid_seg p \<Longrightarrow>
   chain 0 (fst (foldl cover_step acc xs)) (snd (foldl cover_step acc xs)) \<and>
   snd (foldl cover_step acc xs) \<le> 24"
proof (induction xs arbitrary: acc)
  case Nil
  then show ?case by simp
next
  case (Cons p ps)
  have "chain 0 (fst (cover_step acc p)) (snd (cover_step acc p)) \<and>
        snd (cover_step acc p) \<le> 24"
    using Cons.prems by (intro cover_step_chain) auto
  then show ?case using Cons.IH [of "cover_step acc p"] Cons.prems by simp
qed

lemma normalizePeriods_chain: "chain 0 (normalizePeriods ps) 24"
proof -
  let ?sorted = "sort_segs (normalized ps)"
  let ?acc = "foldl cover_step ([], 0) ?sorted"
  have v: "\<forall>p \<in> set ?sorted. valid_seg p"
    by (simp add: set_sort_segs normalized_valid)
  have c: "chain 0 (fst ?acc) (snd ?acc) \<and> snd ?acc \<le> 24"
    using v by (intro foldl_cover_chain) auto
  show ?thesis
    using c by (auto simp: normalizePeriods_def Let_def chain_append)
qed

lemma chain_bounds: "chain a xs b \<Longrightarrow> a \<le> b"
  by (induction xs arbitrary: a) fastforce+

lemma chain_mem:
  "chain a xs b \<Longrightarrow> p \<in> set xs \<Longrightarrow> a \<le> start p \<and> start p < end' p \<and> end' p \<le> b"
proof (induction xs arbitrary: a)
  case Nil
  then show ?case by simp
next
  case (Cons x xs)
  then show ?case using chain_bounds [of "end' x" xs b] by fastforce
qed

lemma chain_hd: "chain a xs b \<Longrightarrow> xs \<noteq> [] \<Longrightarrow> start (hd xs) = a"
  by (cases xs) auto

lemma chain_last: "chain a xs b \<Longrightarrow> xs \<noteq> [] \<Longrightarrow> end' (last xs) = b"
  by (induction xs arbitrary: a) (auto split: if_splits)

lemma chain_nth:
  "chain a xs b \<Longrightarrow> Suc i < length xs \<Longrightarrow> start (xs ! Suc i) = end' (xs ! i)"
proof (induction xs arbitrary: a i)
  case Nil
  then show ?case by simp
next
  case (Cons x xs)
  show ?case
  proof (cases i)
    case 0
    then show ?thesis using Cons.prems by (cases xs) auto
  next
    case (Suc j)
    then show ?thesis using Cons.prems Cons.IH [of "end' x" j] by simp
  qed
qed

lemma normalizePeriods_nonempty: "normalizePeriods ps \<noteq> []"
  using normalizePeriods_chain [of ps] by auto

text \<open>
  Claim C2. For every input list, the output of \<open>normalizePeriods\<close> is a contiguous,
  non-overlapping, gap-free partition of the day: it is not empty, its first period starts
  at 0, its last period ends at 24, every period satisfies \<open>0 \<le> start < end \<le> 24\<close>, and
  every period starts where the one before it ends.
\<close>

theorem normalizePeriods_partition:
  "normalizePeriods ps \<noteq> [] \<and>
   start (hd (normalizePeriods ps)) = 0 \<and>
   end' (last (normalizePeriods ps)) = 24 \<and>
   (\<forall>p \<in> set (normalizePeriods ps). 0 \<le> start p \<and> start p < end' p \<and> end' p \<le> 24) \<and>
   (\<forall>i. Suc i < length (normalizePeriods ps) \<longrightarrow>
        start (normalizePeriods ps ! Suc i) = end' (normalizePeriods ps ! i))"
  using normalizePeriods_chain [of ps] normalizePeriods_nonempty [of ps]
  by (auto simp: chain_hd chain_last chain_nth dest: chain_mem)

theorem normalizePeriods_partition_witness:
  "Suc 0 < length (normalizePeriods
     [\<lparr>status = ''driving'', start_hour_of_day = Num 22, end_hour_of_day = Num 2\<rparr>]) \<and>
   start (hd (normalizePeriods
     [\<lparr>status = ''driving'', start_hour_of_day = Num 22, end_hour_of_day = Num 2\<rparr>])) = 0 \<and>
   end' (last (normalizePeriods
     [\<lparr>status = ''driving'', start_hour_of_day = Num 22, end_hour_of_day = Num 2\<rparr>])) = 24 \<and>
   start (normalizePeriods
     [\<lparr>status = ''driving'', start_hour_of_day = Num 22, end_hour_of_day = Num 2\<rparr>] ! Suc 0) =
   end' (normalizePeriods
     [\<lparr>status = ''driving'', start_hour_of_day = Num 22, end_hour_of_day = Num 2\<rparr>] ! 0) \<and>
   start (normalizePeriods
     [\<lparr>status = ''driving'', start_hour_of_day = Num 22, end_hour_of_day = Num 2\<rparr>] ! Suc 0) <
   end' (normalizePeriods
     [\<lparr>status = ''driving'', start_hour_of_day = Num 22, end_hour_of_day = Num 2\<rparr>] ! Suc 0)"
proof -
  let ?xs = "normalizePeriods
      [\<lparr>status = ''driving'', start_hour_of_day = Num 22, end_hour_of_day = Num 2\<rparr>]"
  have len: "Suc 0 < length ?xs"
    by code_simp
  then have mem: "?xs ! Suc 0 \<in> set ?xs"
    by (rule nth_mem)
  from normalizePeriods_partition
      [of "[\<lparr>status = ''driving'', start_hour_of_day = Num 22, end_hour_of_day = Num 2\<rparr>]"]
    len mem
  show ?thesis by blast
qed

subsection \<open>The totals of a day\<close>

lemma truthy_STATUS_BY_KEY:
  "truthy (STATUS_BY_KEY k) \<longleftrightarrow> k \<in> set STATUS_ROWS \<or> k \<in> set object_prototype_keys"
  by (auto simp: truthy_def STATUS_BY_KEY_def STATUS_ROWS_def split: option.splits if_splits)

text \<open>
  Claim C1. The four totals computed by \<open>totalsFromPeriods\<close> over
  \<open>normalizePeriods periods\<close> should add up to 24 hours for every list of periods.
  A period whose status is \<open>constructor\<close> passes the status check, because
  \<open>STATUS_BY_KEY["constructor"]\<close> is the inherited \<open>Object\<close> function; it fills the
  whole day, none of the four totals counts it, and they add up to 0.
\<close>

theorem totals_miss_inherited_status:
  "normalizePeriods
     [\<lparr>status = ''constructor'', start_hour_of_day = Num 0, end_hour_of_day = Num 24\<rparr>] =
     [\<lparr>start = 0, end' = 24, seg_status = ''constructor''\<rparr>] \<and>
   total_hours (totalsFromPeriods (normalizePeriods
     [\<lparr>status = ''constructor'', start_hour_of_day = Num 0, end_hour_of_day = Num 24\<rparr>])) = 0"
  by code_simp

subsection \<open>Periods with an unknown status\<close>

lemma undefined_status_dropped:
  "STATUS_BY_KEY (status p) = Undefined \<Longrightarrow> pushes p = []"
  by (simp add: pushes_def truthy_def)

lemma only_undefined_statuses:
  assumes "\<forall>p \<in> set ps. STATUS_BY_KEY (status p) = Undefined"
  shows "normalizePeriods ps = [\<lparr>start = 0, end' = 24, seg_status = ''off_duty''\<rparr>]"
proof -
  have "normalized ps = []"
    using assms by (induction ps) (simp_all add: normalized_def undefined_status_dropped)
  then show ?thesis by (simp add: normalizePeriods_def sort_segs_def)
qed

text \<open>
  Claim C10. \<open>normalizePeriods\<close> should drop every period whose status is not one of
  \<open>off_duty\<close>, \<open>sleeper\<close>, \<open>driving\<close>, \<open>on_duty_not_driving\<close>, so that its time
  is rendered as \<open>off_duty\<close> padding. A period with the status \<open>toString\<close> is kept
  with that status: the status check reads the inherited \<open>Object.prototype.toString\<close>.
\<close>

theorem inherited_status_not_dropped:
  "''toString'' \<notin> set STATUS_ROWS \<and>
   normalizePeriods
     [\<lparr>status = ''toString'', start_hour_of_day = Num 8, end_hour_of_day = Num 12\<rparr>] =
     [\<lparr>start = 0, end' = 8, seg_status = ''off_duty''\<rparr>,
      \<lparr>start = 8, end' = 12, seg_status = ''toString''\<rparr>,
      \<lparr>start = 12, end' = 24, seg_status = ''off_duty''\<rparr>]"
  by code_simp

subsection \<open>Periods that cross midnight\<close>













lemma lone_period_unobstructed:
  assumes "q \<in> set (pushes p)"
  shows "unobstructed q (normalized [p])"
  using assms clampHour_bounds [of "start_hour_of_day p"] clampHour_bounds [of "end_hour_of_day p"]
  by (auto simp: unobstructed_def normalized_def pushes_def overlaps_def Let_def split: if_splits)



section \<open>Properties of the trip times\<close>

text \<open>
  Claim C6. For every hour \<open>h \<ge> 0\<close>, \<open>formatTripTime\<close> should render the day
  \<open>\<lfloor>h / 24\<rfloor> + 1\<close> and the time \<open>HH:MM\<close>, with \<open>MM\<close> the fractional hour rounded to
  whole minutes and always between 00 and 59. The rounded minutes are not carried into
  the hour: at \<open>h = 1023 / 1024\<close> the fractional hour is 59.94 minutes, which
  \<open>Math.round\<close> takes to 60, and the time is rendered as \<open>00:60\<close>.
\<close>

theorem minutes_reach_60:
  "formatTripTime (Num (1023 / 1024)) '', '' = ''Day 1, 00:60''"
  by code_simp

section \<open>Properties of the application\<close>

subsection \<open>The body of a planning request\<close>

text \<open>
  Claim C5. Every request posted by \<open>planTrip\<close> has \<open>cycle_rule = "70_8"\<close>,
  \<open>adverse_driving_conditions = false\<close>, \<open>short_haul_mode = "none"\<close>,
  \<open>use_16_hour_exception = false\<close>, \<open>used_16_hour_in_last_7_days = false\<close>,
  \<open>return_to_reporting_location = true\<close> and \<open>enable_34h_restart = true\<close>, and its
  \<open>current_cycle_used\<close> is \<open>parseFloat\<close> of the entered value, or 0 when that is
  NaN.
\<close>

theorem planTrip_body_fields:
  "cycle_rule (planTrip_body parseFloat f) = ''70_8'' \<and>
   adverse_driving_conditions (planTrip_body parseFloat f) = False \<and>
   short_haul_mode (planTrip_body parseFloat f) = ''none'' \<and>
   use_16_hour_exception (planTrip_body parseFloat f) = False \<and>
   used_16_hour_in_last_7_days (planTrip_body parseFloat f) = False \<and>
   return_to_reporting_location (planTrip_body parseFloat f) = True \<and>
   enable_34h_restart (planTrip_body parseFloat f) = True \<and>
   current_cycle_used (planTrip_body parseFloat f) =
     (if isNaN (parseFloat (currentCycleUsed f)) then Num 0
      else parseFloat (currentCycleUsed f)) \<and>
   planTrip parseFloat post f = post (planTrip_body parseFloat f)"
  by (cases "parseFloat (currentCycleUsed f)") (simp_all add: planTrip_body_def planTrip_def)

theorem planTrip_body_fields_witness:
  "cycle_rule (planTrip_body sample_parseFloat (form (sample_app ''35'' False []))) = ''70_8'' \<and>
   current_cycle_used (planTrip_body sample_parseFloat (form (sample_app ''35'' False []))) =
     Num 35 \<and>
   current_cycle_used (planTrip_body sample_parseFloat (form (sample_app ''abc'' False []))) =
     Num 0"
proof -
  have "sample_parseFloat (currentCycleUsed (form (sample_app ''35'' False []))) = Num 35"
       "sample_parseFloat (currentCycleUsed (form (sample_app ''abc'' False []))) = NaN"
    by (simp_all add: sample_parseFloat_def sample_app_def)
  with planTrip_body_fields [of sample_parseFloat "form (sample_app ''35'' False [])"]
       planTrip_body_fields [of sample_parseFloat "form (sample_app ''abc'' False [])"]
  show ?thesis by simp
qed

subsection \<open>The checks before a request is sent\<close>

lemma length_2_iff: "length xs = 2 \<longleftrightarrow> (\<exists>a b. xs = [a, b])"
  by (cases xs; cases "tl xs"; cases "tl (tl xs)") auto

lemma isCoordinatePair_iff:
  "isCoordinatePair toNumber v \<longleftrightarrow>
   (\<exists>a b x y. split CHR '','' v = [a, b] \<and>
      toNumber (trim a) = Num x \<and> toNumber (trim b) = Num y \<and>
      - 90 \<le> x \<and> x \<le> 90 \<and> - 180 \<le> y \<and> y \<le> 180)"
proof (cases "length (split CHR '','' v) = 2")
  case True
  then obtain a b where ab: "split CHR '','' v = [a, b]"
    by (auto simp: length_2_iff)
  show ?thesis
    by (cases "toNumber (trim a)"; cases "toNumber (trim b)")
       (auto simp: isCoordinatePair_def ab Let_def)
next
  case False
  then show ?thesis
    by (auto simp: isCoordinatePair_def Let_def)
qed

lemma handleSubmit_sent:
  assumes "snd (handleSubmit pf tn post s) \<noteq> []"
  shows "\<not> loading s \<and>
         isCoordinatePair tn (currentLocation (form s)) \<and>
         isCoordinatePair tn (pickupLocation (form s)) \<and>
         isCoordinatePair tn (dropoffLocation (form s)) \<and>
         snd (handleSubmit pf tn post s) = [planTrip_body pf (form s)]"
  using assms by (auto simp: handleSubmit_def Let_def split: if_splits)

text \<open>
  Claim C4. \<open>isCoordinatePair value\<close> holds if and only if \<open>value\<close> splits at commas
  into exactly two parts whose numeric values (\<open>Number\<close> of the trimmed part) are both
  finite, the first in \<open>[-90, 90]\<close> and the second in \<open>[-180, 180]\<close>; and every request
  that \<open>handleSubmit\<close> sends carries the three location strings of the form, each of
  which passes \<open>isCoordinatePair\<close>.
\<close>

theorem coordinates_checked:
  "(isCoordinatePair toNumber v \<longleftrightarrow>
     (\<exists>a b x y. split CHR '','' v = [a, b] \<and>
        toNumber (trim a) = Num x \<and> toNumber (trim b) = Num y \<and>
        - 90 \<le> x \<and> x \<le> 90 \<and> - 180 \<le> y \<and> y \<le> 180)) \<and>
   (\<forall>r \<in> set (snd (handleSubmit parseFloat toNumber post s)).
      current_location r = currentLocation (form s) \<and>
      pickup_location r = pickupLocation (form s) \<and>
      dropoff_location r = dropoffLocation (form s) \<and>
      isCoordinatePair toNumber (current_location r) \<and>
      isCoordinatePair toNumber (pickup_location r) \<and>
      isCoordinatePair toNumber (dropoff_location r))"
proof -
  have "\<forall>r \<in> set (snd (handleSubmit parseFloat toNumber post s)).
      current_location r = currentLocation (form s) \<and>
      pickup_location r = pickupLocation (form s) \<and>
      dropoff_location r = dropoffLocation (form s) \<and>
      isCoordinatePair toNumber (current_location r) \<and>
      isCoordinatePair toNumber (pickup_location r) \<and>
      isCoordinatePair toNumber (dropoff_location r)"
  proof
    fix r assume r: "r \<in> set (snd (handleSubmit parseFloat toNumber post s))"
    then have ne: "snd (handleSubmit parseFloat toNumber post s) \<noteq> []" by auto
    from handleSubmit_sent [OF ne] r
    show "current_location r = currentLocation (form s) \<and>
      pickup_location r = pickupLocation (form s) \<and>
      dropoff_location r = dropoffLocation (form s) \<and>
      isCoordinatePair toNumber (current_location r) \<and>
      isCoordinatePair toNumber (pickup_location r) \<and>
      isCoordinatePair toNumber (dropoff_location r)"
      by (auto simp: planTrip_body_def)
  qed
  with isCoordinatePair_iff [of toNumber v] show ?thesis by blast
qed

theorem coordinates_checked_witness:
  "planTrip_body sample_parseFloat (form (sample_app ''35'' False []))
     \<in> set (snd (handleSubmit sample_parseFloat sample_Number sample_post
                (sample_app ''35'' False []))) \<and>
   isCoordinatePair sample_Number
     (pickup_location (planTrip_body sample_parseFloat (form (sample_app ''35'' False [])))) \<and>
   pickup_location (planTrip_body sample_parseFloat (form (sample_app ''35'' False []))) =
     ''41.5, -87.5''"
proof -
  have m: "planTrip_body sample_parseFloat (form (sample_app ''35'' False []))
     \<in> set (snd (handleSubmit sample_parseFloat sample_Number sample_post
                (sample_app ''35'' False [])))"
    by code_simp
  have l: "pickupLocation (form (sample_app ''35'' False [])) = ''41.5, -87.5''"
    by (simp add: sample_app_def)
  from coordinates_checked
         [of sample_Number "''41.5, -87.5''" sample_parseFloat sample_post
             "sample_app ''35'' False []"] m l
  show ?thesis by auto
qed

lemma handleSubmit_while_loading:
  "loading s \<Longrightarrow> handleSubmit parseFloat toNumber post s = (s, [])"
  by (simp add: handleSubmit_def)

text \<open>
  Claim C3, as amended. When \<open>handleSubmit\<close> runs its checks (no request is in
  progress): if the Current Cycle Used field, trimmed, is not empty and \<open>parseFloat\<close> of
  it is NaN, negative or greater than 70, then \<open>handleSubmit\<close> sets an error message and
  sends no request, and \<open>tripData\<close> and the saved plans are unchanged; if the trimmed
  field is empty, \<open>cycleUsed\<close> is 0, the cycle check passes, and the request is sent when
  the three locations are valid.
\<close>

theorem cycle_used_checked:
  assumes "\<not> loading s"
  shows "(trim (currentCycleUsed (form s)) \<noteq> [] \<and>
          (isNaN (parseFloat (trim (currentCycleUsed (form s)))) \<or>
           js_less (parseFloat (trim (currentCycleUsed (form s)))) (Num 0) \<or>
           js_less (Num 70) (parseFloat (trim (currentCycleUsed (form s))))) \<longrightarrow>
          snd (handleSubmit parseFloat toNumber post s) = [] \<and>
          (\<exists>msg. error (fst (handleSubmit parseFloat toNumber post s)) = Some msg) \<and>
          tripData (fst (handleSubmit parseFloat toNumber post s)) = tripData s \<and>
          tripPlans (fst (handleSubmit parseFloat toNumber post s)) = tripPlans s) \<and>
         (trim (currentCycleUsed (form s)) = [] \<longrightarrow>
          cycleUsed parseFloat (form s) = Num 0 \<and>
          (trim (currentLocation (form s)) \<noteq> [] \<and>
           trim (pickupLocation (form s)) \<noteq> [] \<and>
           trim (dropoffLocation (form s)) \<noteq> [] \<and>
           isCoordinatePair toNumber (currentLocation (form s)) \<and>
           isCoordinatePair toNumber (pickupLocation (form s)) \<and>
           isCoordinatePair toNumber (dropoffLocation (form s)) \<longrightarrow>
           snd (handleSubmit parseFloat toNumber post s) =
             [planTrip_body parseFloat (form s)]))"
  using assms by (auto simp: handleSubmit_def cycleUsed_def Let_def)

theorem cycle_used_checked_witness:
  "snd (handleSubmit sample_parseFloat sample_Number sample_post (sample_app ''80'' False [])) = [] \<and>
   (\<exists>msg. error (fst (handleSubmit sample_parseFloat sample_Number sample_post
      (sample_app ''80'' False []))) = Some msg) \<and>
   cycleUsed sample_parseFloat (form (sample_app [] False [])) = Num 0 \<and>
   snd (handleSubmit sample_parseFloat sample_Number sample_post (sample_app [] False [])) =
     [planTrip_body sample_parseFloat (form (sample_app [] False []))]"
proof -
  have a: "\<not> loading (sample_app ''80'' False [])" "\<not> loading (sample_app [] False [])"
    by (simp_all add: sample_app_def)
  have b: "trim (currentCycleUsed (form (sample_app ''80'' False []))) \<noteq> [] \<and>
    js_less (Num 70)
      (sample_parseFloat (trim (currentCycleUsed (form (sample_app ''80'' False [])))))"
    by code_simp
  have c: "trim (currentCycleUsed (form (sample_app [] False []))) = [] \<and>
          trim (currentLocation (form (sample_app [] False []))) \<noteq> [] \<and>
          trim (pickupLocation (form (sample_app [] False []))) \<noteq> [] \<and>
          trim (dropoffLocation (form (sample_app [] False []))) \<noteq> [] \<and>
          isCoordinatePair sample_Number (currentLocation (form (sample_app [] False []))) \<and>
          isCoordinatePair sample_Number (pickupLocation (form (sample_app [] False []))) \<and>
          isCoordinatePair sample_Number (dropoffLocation (form (sample_app [] False [])))"
    by code_simp
  from cycle_used_checked [OF a(1), of sample_parseFloat sample_Number sample_post] b
       cycle_used_checked [OF a(2), of sample_parseFloat sample_Number sample_post] c
  show ?thesis by blast
qed

text \<open>
  As stated, for a field that is not empty and parses to NaN, the claim fails: a field
  that holds one space is not empty and \<open>parseFloat\<close> of it is NaN, but the handler trims
  it first, takes it for 0, sets no error message and posts the request with
  \<open>current_cycle_used\<close> 0.
\<close>

theorem blank_cycle_used_accepted:
  "currentCycleUsed (form (sample_app '' '' False [])) \<noteq> [] \<and>
   isNaN (sample_parseFloat (currentCycleUsed (form (sample_app '' '' False [])))) \<and>
   \<not> loading (sample_app '' '' False []) \<and>
   error (fst (handleSubmit sample_parseFloat sample_Number sample_post
     (sample_app '' '' False []))) = None \<and>
   map current_cycle_used (snd (handleSubmit sample_parseFloat sample_Number sample_post
     (sample_app '' '' False []))) = [Num 0]"
  by code_simp

subsection \<open>The saved plans\<close>

lemma save_plan_head: "save_plan data prev \<noteq> [] \<and> hd (save_plan data prev) = data"
  by (simp add: save_plan_def)

lemma save_plan_length: "length (save_plan data prev) \<le> 10"
  by (simp add: save_plan_def)

lemma distinct_map_take: "distinct (map f xs) \<Longrightarrow> distinct (map f (take n xs))"
  by (simp add: distinct_take take_map [symmetric])

lemma save_plan_distinct:
  assumes "distinct (map plan_id prev)"
  shows "distinct (map plan_id (save_plan data prev))"
proof -
  have "distinct (map plan_id (data # filter (\<lambda>p. plan_id p \<noteq> plan_id data) prev))"
    using assms by (auto simp: distinct_map_filter)
  then show ?thesis unfolding save_plan_def Let_def by (rule distinct_map_take)
qed

lemma save_plan_one_entry:
  "filter (\<lambda>p. plan_id p = plan_id data) (save_plan data prev) = [data]"
proof -
  have "filter (\<lambda>p. plan_id p = plan_id data)
          (take 9 (filter (\<lambda>p. plan_id p \<noteq> plan_id data) prev)) = []"
    by (auto simp: filter_empty_conv dest!: in_set_takeD)
  then show ?thesis
    by (simp add: save_plan_def numeral_eq_Suc)
qed

text \<open>
  Claim C9, as amended. After a successful submission (a request was sent and the server
  answered with the plan \<open>data\<close>), the saved plans start with \<open>data\<close>, are at most 10,
  and hold no other entry with the \<open>plan_id\<close> of \<open>data\<close>; they hold at most one entry
  for each \<open>plan_id\<close> when the list before the submission did.
\<close>

theorem saved_plans_after_success:
  assumes "snd (handleSubmit parseFloat toNumber post s) \<noteq> []"
    and "post (planTrip_body parseFloat (form s)) = Inr data"
  shows "tripPlans (fst (handleSubmit parseFloat toNumber post s)) \<noteq> [] \<and>
         hd (tripPlans (fst (handleSubmit parseFloat toNumber post s))) = data \<and>
         length (tripPlans (fst (handleSubmit parseFloat toNumber post s))) \<le> 10 \<and>
         filter (\<lambda>p. plan_id p = plan_id data)
           (tripPlans (fst (handleSubmit parseFloat toNumber post s))) = [data] \<and>
         (distinct (map plan_id (tripPlans s)) \<longrightarrow>
          distinct (map plan_id (tripPlans (fst (handleSubmit parseFloat toNumber post s)))))"
proof -
  have "tripPlans (fst (handleSubmit parseFloat toNumber post s)) = save_plan data (tripPlans s)"
    using assms by (auto simp: handleSubmit_def Let_def planTrip_def split: if_splits)
  then show ?thesis
    using save_plan_head [of data "tripPlans s"] save_plan_length [of data "tripPlans s"]
      save_plan_one_entry [of data "tripPlans s"] save_plan_distinct [of "tripPlans s" data]
    by simp
qed

theorem saved_plans_after_success_witness:
  "hd (tripPlans (fst (handleSubmit sample_parseFloat sample_Number sample_post
     (sample_app ''35'' False
        [\<lparr>plan_id = ''plan-1'', plan_data = ''{}''\<rparr>,
         \<lparr>plan_id = ''plan-2'', plan_data = ''{old}''\<rparr>])))) =
     \<lparr>plan_id = ''plan-2'', plan_data = ''{}''\<rparr> \<and>
   distinct (map plan_id (tripPlans (fst (handleSubmit sample_parseFloat sample_Number
     sample_post
     (sample_app ''35'' False
        [\<lparr>plan_id = ''plan-1'', plan_data = ''{}''\<rparr>,
         \<lparr>plan_id = ''plan-2'', plan_data = ''{old}''\<rparr>])))))"
proof -
  let ?s = "sample_app ''35'' False
        [\<lparr>plan_id = ''plan-1'', plan_data = ''{}''\<rparr>,
         \<lparr>plan_id = ''plan-2'', plan_data = ''{old}''\<rparr>]"
  have a: "snd (handleSubmit sample_parseFloat sample_Number sample_post ?s) \<noteq> []"
    by code_simp
  have b: "sample_post (planTrip_body sample_parseFloat (form ?s)) =
           Inr \<lparr>plan_id = ''plan-2'', plan_data = ''{}''\<rparr>"
    by (simp add: sample_post_def)
  have c: "distinct (map plan_id (tripPlans ?s))"
    by (simp add: sample_app_def)
  from saved_plans_after_success [OF a b] c show ?thesis by blast
qed

text \<open>
  \<open>loadInitialState\<close> stores the recent plans of the server as they come, and the
  submission removes only the entries with the \<open>plan_id\<close> of the new plan. As stated,
  with at most one entry for each \<open>plan_id\<close> after every submission, the claim fails
  when the server lists a plan twice.
\<close>

lemma loadInitialState_recent:
  "recent \<noteq> [] \<Longrightarrow> tripPlans (loadInitialState recent latest s) = recent"
  by (simp add: loadInitialState_def)

theorem repeated_plan_id_survives:
  "snd (handleSubmit sample_parseFloat sample_Number sample_post
     (loadInitialState
        [\<lparr>plan_id = ''plan-1'', plan_data = ''{}''\<rparr>,
         \<lparr>plan_id = ''plan-1'', plan_data = ''{}''\<rparr>] None
        (sample_app ''35'' False []))) \<noteq> [] \<and>
   tripPlans (fst (handleSubmit sample_parseFloat sample_Number sample_post
     (loadInitialState
        [\<lparr>plan_id = ''plan-1'', plan_data = ''{}''\<rparr>,
         \<lparr>plan_id = ''plan-1'', plan_data = ''{}''\<rparr>] None
        (sample_app ''35'' False [])))) =
     [\<lparr>plan_id = ''plan-2'', plan_data = ''{}''\<rparr>,
      \<lparr>plan_id = ''plan-1'', plan_data = ''{}''\<rparr>,
      \<lparr>plan_id = ''plan-1'', plan_data = ''{}''\<rparr>] \<and>
   \<not> distinct (map plan_id (tripPlans (fst (handleSubmit sample_parseFloat sample_Number
     sample_post
     (loadInitialState
        [\<lparr>plan_id = ''plan-1'', plan_data = ''{}''\<rparr>,
         \<lparr>plan_id = ''plan-1'', plan_data = ''{}''\<rparr>] None
        (sample_app ''35'' False []))))))"
  by code_simp

section \<open>Properties of the scheduling engine\<close>


lemma go_off_duty_cycle:
  "cycle_hours_used (go_off_duty p h s) = cycle_hours_used s \<or>
   cycle_hours_used (go_off_duty p h s) = 0"
  by (simp add: go_off_duty_def Let_def)











text \<open>
  Driving is started only for a duration that the clock allows: rule 6 is reached after
  rules 2 to 5, and its duration stays below every trigger.
\<close>

lemma drive_is_legal:
  assumes "next_action p s False remaining speed = Drive d"
  shows "canDriveContinuously p s d \<and> cycleHasCapacity p s d"
proof -
  have d: "d = min remaining (distance_to_next_trigger p s speed)"
    and c: "cycleHasCapacity p s d"
    using assms by (auto simp: next_action_def Let_def split: if_splits)
  have "d \<le> distance_to_next_trigger p s speed"
    unfolding d by simp
  then have "canDriveContinuously p s d"
    by (auto simp: canDriveContinuously_def distance_to_next_trigger_def Let_def
        split: if_splits)
  with c show ?thesis by simp
qed

text \<open>
  With 68 of 70 hours used and a leg of five hours, the first action is a forced rest,
  though the on-duty window alone would allow the drive.
\<close>

lemma forced_rest_before_cycle_limit:
  "case simulate (sample_parameters\<lparr>current_cycle_used_hours := 68\<rparr>)
          [\<lparr>distance_miles = 300, duration_hours = 5\<rparr>] of
     Inr line \<Rightarrow> fst (line ! 0) = Rest
   | Inl e \<Rightarrow> False"
  by code_simp




end
